theory Spec2Isabelle
  imports Main "HOL-Library.Sublist"
begin

section \<open>Python values and library functions used by the renderer\<close>

text \<open>
  The renderer of \<^verbatim>\<open>convert.py\<close> is string processing: templates are filled in by
  \<^verbatim>\<open>str.format\<close>, some of them after \<^verbatim>\<open>textwrap.dedent\<close>, paths are computed by
  \<^verbatim>\<open>os.path\<close>, the warning text goes through \<^verbatim>\<open>html.escape\<close> and an image source
  through \<^verbatim>\<open>urllib.parse.urlparse\<close>. A Python \<^verbatim>\<open>str\<close> is a \<^typ>\<open>string\<close>; every
  character the code inspects is an ASCII character. The library functions are those of
  CPython 3.11 (\<^verbatim>\<open>posixpath\<close> for \<^verbatim>\<open>os.path\<close>).
\<close>

datatype py_error = ValueError | IndexError | KeyError

text \<open>Sequencing of a computation that may raise.\<close>

definition py_bind :: "py_error + 'a \<Rightarrow> ('a \<Rightarrow> py_error + 'b) \<Rightarrow> py_error + 'b" where
  "py_bind r f = (case r of Inl e \<Rightarrow> Inl e | Inr x \<Rightarrow> f x)"

definition prepend :: "string \<Rightarrow> py_error + string \<Rightarrow> py_error + string" where
  "prepend s r = (case r of Inl e \<Rightarrow> Inl e | Inr t \<Rightarrow> Inr (s @ t))"

subsection \<open>\<^verbatim>\<open>str.split\<close>, \<^verbatim>\<open>str.join\<close>, \<^verbatim>\<open>str.replace\<close>\<close>

text \<open>\<^verbatim>\<open>s.split(sep)\<close> for a separator of one character: never the empty list.\<close>

fun split_on :: "char \<Rightarrow> string \<Rightarrow> string list" where
  "split_on sep [] = [] # []"
| "split_on sep (c # cs) =
     (if c = sep then [] # split_on sep cs
      else (case split_on sep cs of
              [] \<Rightarrow> [c] # []
            | l # ls \<Rightarrow> (c # l) # ls))"

text \<open>\<^verbatim>\<open>sep.join(parts)\<close>.\<close>

fun str_join :: "string \<Rightarrow> string list \<Rightarrow> string" where
  "str_join sep [] = []"
| "str_join sep (x # []) = x"
| "str_join sep (x # y # ys) = x @ sep @ str_join sep (y # ys)"

text \<open>\<^verbatim>\<open>s.replace(old, new)\<close> for \<^verbatim>\<open>old\<close> of one character.\<close>

definition replace_char :: "char \<Rightarrow> string \<Rightarrow> string \<Rightarrow> string" where
  "replace_char old new s = concat (map (\<lambda>c. if c = old then new else [c]) s)"

subsection \<open>\<^verbatim>\<open>str.format\<close>\<close>

text \<open>
  \<^verbatim>\<open>template.format(*args, **kwargs)\<close> for templates whose replacement fields are
  \<^verbatim>\<open>{}\<close> (the next positional argument) or \<^verbatim>\<open>{name}\<close> (a keyword argument), which are
  the only fields of the templates in \<^verbatim>\<open>convert.py\<close>; \<^verbatim>\<open>{{\<close> and \<^verbatim>\<open>}}\<close> are
  literal braces. The second argument is the name of the field being read, if any.
  A lone \<^verbatim>\<open>}\<close> or an unclosed field is a ValueError, a missing positional argument an
  IndexError, a missing keyword a KeyError. The arguments are inserted as they are: they
  are not scanned for fields.
\<close>

fun format_fields ::
  "string \<Rightarrow> string option \<Rightarrow> string list \<Rightarrow> (string \<times> string) list \<Rightarrow> py_error + string" where
  "format_fields [] None args kwargs = Inr []"
| "format_fields [] (Some name) args kwargs = Inl ValueError"
| "format_fields (c # cs) (Some name) args kwargs =
     (if c = CHR ''}'' then
        (if name = [] then
           (case args of
              [] \<Rightarrow> Inl IndexError
            | a # as \<Rightarrow> prepend a (format_fields cs None as kwargs))
         else
           (case map_of kwargs name of
              None \<Rightarrow> Inl KeyError
            | Some v \<Rightarrow> prepend v (format_fields cs None args kwargs)))
      else format_fields cs (Some (name @ [c])) args kwargs)"
| "format_fields (c # cs) None args kwargs =
     (if c = CHR ''{'' then
        (case cs of
           [] \<Rightarrow> Inl ValueError
         | d # ds \<Rightarrow>
             if d = CHR ''{'' then prepend ''{'' (format_fields ds None args kwargs)
             else format_fields cs (Some []) args kwargs)
      else if c = CHR ''}'' then
        (case cs of
           [] \<Rightarrow> Inl ValueError
         | d # ds \<Rightarrow>
             if d = CHR ''}'' then prepend ''}'' (format_fields ds None args kwargs)
             else Inl ValueError)
      else prepend [c] (format_fields cs None args kwargs))"

definition format :: "string \<Rightarrow> string list \<Rightarrow> (string \<times> string) list \<Rightarrow> py_error + string" where
  "format template args kwargs = format_fields template None args kwargs"

subsection \<open>\<^verbatim>\<open>textwrap.dedent\<close>\<close>

definition is_blank :: "char \<Rightarrow> bool" where
  "is_blank c = (c = CHR '' '' \<or> c = CHR 0x09)"

text \<open>
  The margin is updated line by line as in the library: kept when the new indentation
  extends it, replaced when the new indentation is a prefix of it, cut at the first
  difference otherwise.
\<close>

definition margin_step :: "string \<Rightarrow> string \<Rightarrow> string" where
  "margin_step margin indent =
     (if prefix margin indent then margin
      else if prefix indent margin then indent
      else longest_common_prefix margin indent)"

text \<open>
  Lines of blanks only become empty; the indentations are those of the lines that have
  a character other than a blank; the margin is removed from the start of every line
  that has it.
\<close>

definition dedent :: "string \<Rightarrow> string" where
  "dedent text =
     (let lines = map (\<lambda>l. if list_all is_blank l then [] else l) (split_on CHR ''\<newline>'' text);
          indents = map (takeWhile is_blank) (filter (\<lambda>l. l \<noteq> []) lines);
          margin = (case indents of [] \<Rightarrow> [] | i # rest \<Rightarrow> foldl margin_step i rest)
      in str_join ''\<newline>''
           (map (\<lambda>l. if prefix margin l then drop (length margin) l else l) lines))"

subsection \<open>\<^verbatim>\<open>html.escape\<close>\<close>

text \<open>\<^verbatim>\<open>html.escape(s)\<close> with \<^verbatim>\<open>quote=True\<close>, the default: five replacements, the ampersand first.\<close>

definition html_escape :: "string \<Rightarrow> string" where
  \<open>html_escape s =
     replace_char (CHR 0x27) ''&#x27;''
       (replace_char (CHR 0x22) ''&quot;''
          (replace_char CHR ''>'' ''&gt;''
             (replace_char CHR ''<'' ''&lt;''
                (replace_char CHR ''&'' ''&amp;'' s))))\<close>

subsection \<open>\<^verbatim>\<open>os.path\<close>\<close>

text \<open>\<^verbatim>\<open>os.path.join(a, b)\<close>: an absolute \<^verbatim>\<open>b\<close> replaces \<^verbatim>\<open>a\<close>.\<close>

definition os_path_join :: "string \<Rightarrow> string \<Rightarrow> string" where
  "os_path_join a b =
     (if prefix ''/'' b then b
      else if a = [] \<or> suffix ''/'' a then a @ b
      else a @ ''/'' @ b)"

text \<open>\<^verbatim>\<open>os.path.basename(p)\<close>: what follows the last slash.\<close>

definition os_path_basename :: "string \<Rightarrow> string" where
  "os_path_basename p = rev (takeWhile (\<lambda>c. c \<noteq> CHR ''/'') (rev p))"

text \<open>
  \<^verbatim>\<open>os.path.dirname(p)\<close>: the text up to the last slash, without its trailing
  slashes unless it consists of slashes only.
\<close>

definition os_path_dirname :: "string \<Rightarrow> string" where
  "os_path_dirname p =
     (let head = rev (dropWhile (\<lambda>c. c \<noteq> CHR ''/'') (rev p))
      in if head \<noteq> [] \<and> \<not> list_all (\<lambda>c. c = CHR ''/'') head
         then rev (dropWhile (\<lambda>c. c = CHR ''/'') (rev head))
         else head)"

text \<open>One round of the loop of \<^verbatim>\<open>os.path.normpath\<close> over the components.\<close>

definition normpath_step :: "nat \<Rightarrow> string list \<Rightarrow> string \<Rightarrow> string list" where
  "normpath_step initial_slashes new_comps component =
     (if component = [] \<or> component = ''.'' then new_comps
      else if component \<noteq> ''..'' \<or> (initial_slashes = 0 \<and> new_comps = [])
              \<or> (new_comps \<noteq> [] \<and> last new_comps = ''..'')
           then new_comps @ [component]
      else if new_comps \<noteq> [] then butlast new_comps
      else new_comps)"

definition os_path_normpath :: "string \<Rightarrow> string" where
  "os_path_normpath path =
     (if path = [] then ''.''
      else
        let initial_slashes =
              (if prefix ''/'' path
               then (if prefix ''//'' path \<and> \<not> prefix ''///'' path then 2 else 1)
               else 0);
            comps = foldl (normpath_step initial_slashes) [] (split_on CHR ''/'' path);
            path' = replicate initial_slashes CHR ''/'' @ str_join ''/'' comps
        in if path' = [] then ''.'' else path')"

subsection \<open>\<^verbatim>\<open>urllib.parse.urlparse\<close>: the network location\<close>

definition scheme_chars :: string where
  "scheme_chars = ''abcdefghijklmnopqrstuvwxyz'' @ ''ABCDEFGHIJKLMNOPQRSTUVWXYZ'' @ ''0123456789'' @ ''+-.''"

definition ascii_alpha :: "char \<Rightarrow> bool" where
  "ascii_alpha c = (c \<in> set (''abcdefghijklmnopqrstuvwxyz'' @ ''ABCDEFGHIJKLMNOPQRSTUVWXYZ''))"

text \<open>Leading C0 control characters and spaces are stripped; tab, CR and LF are removed everywhere.\<close>

definition lstrip_c0 :: "string \<Rightarrow> string" where
  "lstrip_c0 url = dropWhile (\<lambda>c. (of_char c :: nat) \<le> 32) url"

definition remove_unsafe :: "string \<Rightarrow> string" where
  "remove_unsafe url = filter (\<lambda>c. c \<noteq> CHR 0x09 \<and> c \<noteq> CHR 0x0D \<and> c \<noteq> CHR 0x0A) url"

text \<open>
  The scheme is split off when the text before the first colon is not empty, starts
  with an ASCII letter and consists of scheme characters.
\<close>

definition strip_scheme :: "string \<Rightarrow> string" where
  "strip_scheme url =
     (let pre = takeWhile (\<lambda>c. c \<noteq> CHR '':'') url
      in if CHR '':'' \<in> set url \<and> pre \<noteq> [] \<and> ascii_alpha (hd pre)
            \<and> list_all (\<lambda>c. c \<in> set scheme_chars) pre
         then drop (length pre + 1) url
         else url)"

text \<open>
  \<^verbatim>\<open>urlparse(src).netloc\<close>. After the scheme, a text that starts with two slashes has
  a network location: what follows them up to the first of \<^verbatim>\<open>/ ? #\<close>. One bracket
  without the other is a ValueError. Two validations of the library read tables that
  are outside this development: the address between brackets (\<^verbatim>\<open>ipaddress\<close>), run
  when both brackets are there, and the NFKC normal form of the network location, run
  when it is not empty and not ASCII. They are the parameter \<open>rejects\<close>, which holds
  of a network location for which one of them raises ValueError, and which is
  consulted only where the library runs one of them.
\<close>

type_synonym netloc_check = "string \<Rightarrow> bool"

definition urlparse_netloc :: "netloc_check \<Rightarrow> string \<Rightarrow> py_error + string" where
  "urlparse_netloc rejects src =
     (let url = strip_scheme (remove_unsafe (lstrip_c0 src))
      in if take 2 url = ''//'' then
           let netloc = takeWhile (\<lambda>c. c \<notin> set ''/?#'') (drop 2 url);
               lb = (CHR ''['' \<in> set netloc);
               rb = (CHR '']'' \<in> set netloc)
           in if (lb \<and> \<not> rb) \<or> (rb \<and> \<not> lb) then Inl ValueError
              else if lb \<and> rb \<and> rejects netloc then Inl ValueError
              else if netloc \<noteq> [] \<and> \<not> list_all (\<lambda>c. (of_char c :: nat) < 128) netloc
                      \<and> rejects netloc then Inl ValueError
              else Inr netloc
         else Inr [])"

section \<open>The document record (\<^verbatim>\<open>record.py\<close>)\<close>

datatype ArticleState = TO_BE_SYNCED | CREATED | SKIPPED | SYNCED

record Article =
  absolute_path :: string
  relative_path :: string
  content_path :: "string option"
  space :: "string option"
  confluence_id :: "string option"
  ancestor_id :: "string option"
  page_version :: "int option"
  state :: ArticleState
  is_directory :: bool

definition absolute_director :: "Article \<Rightarrow> string" where
  "absolute_director a = os_path_dirname (absolute_path a)"

section \<open>The renderer (\<^verbatim>\<open>convert.py\<close>)\<close>

text \<open>The warning setting is a \<^verbatim>\<open>Union[bool, str]\<close>.\<close>

datatype warning_setting = WBool bool | WStr string

text \<open>Truth value of a setting in a condition: \<^verbatim>\<open>False\<close> and the empty string are false.\<close>

fun truthy :: "warning_setting \<Rightarrow> bool" where
  "truthy (WBool b) = b"
| "truthy (WStr s) = (s \<noteq> [])"

record ConfluenceRenderer =
  attachments :: "string list"
  authors :: "string list"
  has_toc :: bool
  render_toc :: bool
  article :: Article
  warning :: warning_setting
  two_column_layout :: bool

subsection \<open>The templates\<close>

definition full_with_template :: string where
  \<open>full_with_template = dedent (
     ''\<newline>'' @
     ''        <ac:layout-section ac:type="fixed-width" ac:breakout-mode="default">\<newline>'' @
     ''            <ac:layout-cell>\<newline>'' @
     ''                {}\<newline>'' @
     ''            </ac:layout-cell>\<newline>'' @
     ''        </ac:layout-section>\<newline>'' @
     ''    '')\<close>

definition two_column_template :: string where
  \<open>two_column_template = dedent (
     ''\<newline>'' @
     ''        <ac:layout-section ac:type="two_left_sidebar" ac:breakout-mode="default">\<newline>'' @
     ''            <ac:layout-cell>\<newline>'' @
     ''                {sidebar}\<newline>'' @
     ''            </ac:layout-cell><ac:layout-cell>\<newline>'' @
     ''                {main_content}\<newline>'' @
     ''            </ac:layout-cell>\<newline>'' @
     ''        </ac:layout-section>\<newline>'' @
     ''    '')\<close>

definition page_template :: string where
  \<open>page_template = dedent (
     ''\<newline>'' @
     ''            <ac:layout>\<newline>'' @
     ''                {}\<newline>'' @
     ''            </ac:layout>\<newline>'' @
     ''        '')\<close>

text \<open>The table of contents of \<^verbatim>\<open>layout\<close>, a literal of its first branch.\<close>

definition toc_macro :: string where
  \<open>toc_macro = dedent (
     ''\<newline>'' @
     ''                <h1>Table of Contents</h1>\<newline>'' @
     ''                <p><ac:structured-macro ac:name="toc" ac:schema-version="1">\<newline>'' @
     ''                    <ac:parameter ac:name="exclude">^(Authors|Table of Contents)$</ac:parameter>\<newline>'' @
     ''                </ac:structured-macro></p>\<newline>'' @
     ''            '')\<close>

definition warning_template :: string where
  \<open>warning_template =
     ''<ac:structured-macro ac:name="note" ac:schema-version="1" ac:macro-id="f5f3fbe6-6a62-4eb2-867b-3e1254cef301">'' @
     ''<ac:rich-text-body><p>{copy}</p></ac:rich-text-body></ac:structured-macro>''\<close>

definition default_warning_copy :: string where
  \<open>default_warning_copy =
     ''This page is automatically generated and can be overwritten. Please don't modify it here.''\<close>

definition author_template :: string where
  \<open>author_template =
     ''<ac:structured-macro ac:name="profile-picture" ac:schema-version="1">\<newline>'' @
     ''                    <ac:parameter ac:name="User"><ri:user ri:userkey="{user_key}" /></ac:parameter>\<newline>'' @
     ''                </ac:structured-macro>&nbsp;\<newline>'' @
     ''                <ac:link><ri:user ri:userkey="{user_key}" /></ac:link>''\<close>

text \<open>The template of \<^verbatim>\<open>block_code\<close>; its literal starts with a line continuation.\<close>

definition block_code_template :: string where
  \<open>block_code_template = dedent (
     ''            <ac:structured-macro ac:name="code" ac:schema-version="1">\<newline>'' @
     ''                <ac:parameter ac:name="language">{l}</ac:parameter>\<newline>'' @
     ''                <ac:plain-text-body><![CDATA[{c}]]></ac:plain-text-body>\<newline>'' @
     ''            </ac:structured-macro>\<newline>'' @
     ''        '')\<close>

subsection \<open>Construction\<close>

text \<open>\<^verbatim>\<open>__init__\<close>: \<^verbatim>\<open>authors=None\<close> is replaced by the empty list.\<close>

definition init ::
  "Article \<Rightarrow> string list option \<Rightarrow> warning_setting \<Rightarrow> bool \<Rightarrow> bool \<Rightarrow> ConfluenceRenderer" where
  "init art auths warn toc two_col =
     \<lparr>attachments = [],
      authors = (case auths of None \<Rightarrow> [] | Some l \<Rightarrow> l),
      has_toc = False,
      render_toc = toc,
      article = art,
      warning = warn,
      two_column_layout = two_col\<rparr>"

subsection \<open>The warning banner and the author block\<close>

text \<open>
  \<^verbatim>\<open>_render_warning\<close>. The second branch of the inner test is reached with a string
  only: \<^verbatim>\<open>False\<close> does not pass the outer test. The debugging \<^verbatim>\<open>print\<close> does not
  change the result.
\<close>

definition render_warning :: "ConfluenceRenderer \<Rightarrow> py_error + string" where
  "render_warning self =
     (if truthy (warning self) then
        let warning_copy =
              (if warning self = WBool True then default_warning_copy
               else (case warning self of WStr s \<Rightarrow> s | WBool b \<Rightarrow> []))
        in format warning_template [] [(''copy'', html_escape warning_copy)]
      else Inr [])"

text \<open>The results of a list of computations, up to the first that raises.\<close>

fun collect :: "(py_error + 'a) list \<Rightarrow> py_error + 'a list" where
  "collect [] = Inr []"
| "collect (r # rs) = py_bind r (\<lambda>x. py_bind (collect rs) (\<lambda>xs. Inr (x # xs)))"

definition render_authors :: "ConfluenceRenderer \<Rightarrow> py_error + string" where
  \<open>render_authors self =
     (if length (authors self) > 0 then
        py_bind
          (collect (map (\<lambda>user_key. format author_template [] [(''user_key'', user_key)])
                        (authors self)))
          (\<lambda>refs. format ''<h1>Authors</h1><p>{}</p>'' [str_join ''<br />'' refs] [])
      else Inr [])\<close>

subsection \<open>The final layout\<close>

text \<open>The variable \<^verbatim>\<open>toc\<close> of \<^verbatim>\<open>layout\<close>.\<close>

definition layout_toc :: "ConfluenceRenderer \<Rightarrow> string" where
  "layout_toc self = (if has_toc self \<and> render_toc self then toc_macro else [])"

definition layout :: "ConfluenceRenderer \<Rightarrow> string \<Rightarrow> py_error + string" where
  "layout self content =
     (let toc = layout_toc self
      in py_bind (render_authors self) (\<lambda>auths.
         py_bind (render_warning self) (\<lambda>warn.
           if two_column_layout self \<and> (toc \<noteq> [] \<or> auths \<noteq> []) then
             py_bind (if warn \<noteq> [] then format full_with_template [warn] [] else Inr warn) (\<lambda>warn.
             py_bind (format two_column_template []
                        [(''sidebar'', toc @ auths), (''main_content'', content)]) (\<lambda>columns.
               format page_template [warn @ columns] []))
           else Inr (warn @ toc @ auths @ content))))"

subsection \<open>The callbacks\<close>

text \<open>\<^verbatim>\<open>'%d' % n\<close>.\<close>

fun decimal :: "nat \<Rightarrow> string" where
  "decimal n =
     (if n < 10 then [''0123456789'' ! n]
      else decimal (n div 10) @ [''0123456789'' ! (n mod 10)])"

declare decimal.simps [simp del]

definition str_of_int :: "int \<Rightarrow> string" where
  "str_of_int i = (if i < 0 then ''-'' @ decimal (nat (- i)) else decimal (nat i))"

text \<open>
  The method \<^verbatim>\<open>header\<close> of the base class \<^verbatim>\<open>mistune.Renderer\<close> (mistune 0.8), which
  is \<^verbatim>\<open>'<h%d>%s</h%d>\n' % (level, text, level)\<close>.
\<close>

definition mistune_header :: "string \<Rightarrow> int \<Rightarrow> string option \<Rightarrow> string" where
  \<open>mistune_header text level raw =
     ''<h'' @ str_of_int level @ ''>'' @ text @ ''</h'' @ str_of_int level @ ''>\<newline>''\<close>

definition header ::
  "ConfluenceRenderer \<Rightarrow> string \<Rightarrow> int \<Rightarrow> string option \<Rightarrow> string \<times> ConfluenceRenderer" where
  "header self text level raw = (mistune_header text level raw, self\<lparr>has_toc := True\<rparr>)"

definition block_code :: "ConfluenceRenderer \<Rightarrow> string \<Rightarrow> string option \<Rightarrow> py_error + string" where
  "block_code self code lang =
     format block_code_template []
       [(''c'', code), (''l'', (case lang of None \<Rightarrow> [] | Some l \<Rightarrow> l))]"

definition image ::
  "netloc_check \<Rightarrow> ConfluenceRenderer \<Rightarrow> string \<Rightarrow> string option \<Rightarrow> string
     \<Rightarrow> py_error + string \<times> ConfluenceRenderer" where
  \<open>image rejects self src title alt_text =
     py_bind (urlparse_netloc rejects src) (\<lambda>netloc.
       let is_external = (netloc \<noteq> []);
           tag_template = ''<ac:image>{image_tag}</ac:image>''
       in py_bind (format ''<ri:url ri:value="{}" />'' [src] []) (\<lambda>image_tag.
            if \<not> is_external then
              let image_path =
                    os_path_normpath (os_path_join (absolute_director (article self)) src)
              in py_bind (format ''<ri:attachment ri:filename="{}" />''
                            [os_path_basename image_path] []) (\<lambda>image_tag.
                 py_bind (format tag_template [] [(''image_tag'', image_tag)]) (\<lambda>fragment.
                   Inr (fragment, self\<lparr>attachments := attachments self @ [image_path]\<rparr>)))
            else
              py_bind (format tag_template [] [(''image_tag'', image_tag)]) (\<lambda>fragment.
                Inr (fragment, self))))\<close>

subsection \<open>A render pass\<close>

text \<open>
  Modelled from the spec: the parser that walks the document is not part of the
  sources. It calls the renderer once per construct, in document order; a construct
  other than a heading, a code block or an image is rendered by the base class, which
  does not touch the renderer's state, and is represented by its fragment.
\<close>

datatype callback =
    Header string int "string option"
  | BlockCode string "string option"
  | Image string "string option" string
  | Other string

fun is_header :: "callback \<Rightarrow> bool" where
  "is_header (Header text level raw) = True"
| "is_header (BlockCode code lang) = False"
| "is_header (Image src title alt_text) = False"
| "is_header (Other fragment) = False"

fun callback_step ::
  "netloc_check \<Rightarrow> ConfluenceRenderer \<Rightarrow> callback \<Rightarrow> py_error + string \<times> ConfluenceRenderer" where
  "callback_step rejects self (Header text level raw) = Inr (header self text level raw)"
| "callback_step rejects self (BlockCode code lang) =
     py_bind (block_code self code lang) (\<lambda>fragment. Inr (fragment, self))"
| "callback_step rejects self (Image src title alt_text) = image rejects self src title alt_text"
| "callback_step rejects self (Other fragment) = Inr (fragment, self)"

fun render_pass ::
  "netloc_check \<Rightarrow> ConfluenceRenderer \<Rightarrow> callback list
     \<Rightarrow> py_error + string list \<times> ConfluenceRenderer" where
  "render_pass rejects self [] = Inr ([], self)"
| "render_pass rejects self (cb # cbs) =
     py_bind (callback_step rejects self cb) (\<lambda>(fragment, self').
       py_bind (render_pass rejects self' cbs) (\<lambda>(fragments, self'').
         Inr (fragment # fragments, self'')))"

section \<open>Closed forms of the rendered fragments\<close>

text \<open>
  The fragments that the templates produce, written out, so that the statements below
  can name them. Each is proved equal to what the code computes.
\<close>

definition full_width_section :: "string \<Rightarrow> string" where
  \<open>full_width_section banner =
     ''\<newline>'' @
     ''<ac:layout-section ac:type="fixed-width" ac:breakout-mode="default">\<newline>'' @
     ''    <ac:layout-cell>\<newline>'' @
     ''        '' @ banner @ ''\<newline>'' @
     ''    </ac:layout-cell>\<newline>'' @
     ''</ac:layout-section>\<newline>''\<close>

definition two_column_section :: "string \<Rightarrow> string \<Rightarrow> string" where
  \<open>two_column_section sidebar main_content =
     ''\<newline>'' @
     ''<ac:layout-section ac:type="two_left_sidebar" ac:breakout-mode="default">\<newline>'' @
     ''    <ac:layout-cell>\<newline>'' @
     ''        '' @ sidebar @ ''\<newline>'' @
     ''    </ac:layout-cell><ac:layout-cell>\<newline>'' @
     ''        '' @ main_content @ ''\<newline>'' @
     ''    </ac:layout-cell>\<newline>'' @
     ''</ac:layout-section>\<newline>''\<close>

definition page_layout :: "string \<Rightarrow> string" where
  \<open>page_layout sections =
     ''\<newline>'' @
     ''<ac:layout>\<newline>'' @
     ''    '' @ sections @ ''\<newline>'' @
     ''</ac:layout>\<newline>''\<close>

definition toc_exclude_parameter :: string where
  \<open>toc_exclude_parameter =
     ''<ac:parameter ac:name="exclude">^(Authors|Table of Contents)$</ac:parameter>''\<close>

definition note_macro :: "string \<Rightarrow> string" where
  \<open>note_macro copy =
     ''<ac:structured-macro ac:name="note" ac:schema-version="1" ac:macro-id="f5f3fbe6-6a62-4eb2-867b-3e1254cef301">'' @
     ''<ac:rich-text-body><p>'' @ copy @ ''</p></ac:rich-text-body></ac:structured-macro>''\<close>

definition profile_picture :: "string \<Rightarrow> string" where
  \<open>profile_picture user_key =
     ''<ac:structured-macro ac:name="profile-picture" ac:schema-version="1">\<newline>'' @
     ''                    <ac:parameter ac:name="User"><ri:user ri:userkey="'' @ user_key @
     ''" /></ac:parameter>\<newline>'' @
     ''                </ac:structured-macro>''\<close>

definition user_link :: "string \<Rightarrow> string" where
  \<open>user_link user_key = ''<ac:link><ri:user ri:userkey="'' @ user_key @ ''" /></ac:link>''\<close>

definition profile_reference :: "string \<Rightarrow> string" where
  \<open>profile_reference user_key =
     profile_picture user_key @ ''&nbsp;\<newline>'' @ ''                '' @ user_link user_key\<close>

definition author_block :: "string list \<Rightarrow> string" where
  \<open>author_block keys =
     (if keys = [] then []
      else ''<h1>Authors</h1><p>'' @ str_join ''<br />'' (map profile_reference keys) @ ''</p>'')\<close>

definition code_macro :: "string \<Rightarrow> string \<Rightarrow> string" where
  \<open>code_macro language payload =
     ''<ac:structured-macro ac:name="code" ac:schema-version="1">\<newline>'' @
     ''    <ac:parameter ac:name="language">'' @ language @ ''</ac:parameter>\<newline>'' @
     ''    <ac:plain-text-body><![CDATA['' @ payload @ '']]></ac:plain-text-body>\<newline>'' @
     ''</ac:structured-macro>\<newline>''\<close>

definition url_image :: "string \<Rightarrow> string" where
  \<open>url_image src = ''<ac:image><ri:url ri:value="'' @ src @ ''" /></ac:image>''\<close>

definition attachment_image :: "string \<Rightarrow> string" where
  \<open>attachment_image filename =
     ''<ac:image><ri:attachment ri:filename="'' @ filename @ ''" /></ac:image>''\<close>

definition warning_banner :: "warning_setting \<Rightarrow> string" where
  "warning_banner w =
     (case w of
        WBool b \<Rightarrow> if b then note_macro (html_escape default_warning_copy) else []
      | WStr s \<Rightarrow> if s = [] then [] else note_macro (html_escape s))"

text \<open>
  The page of a layout: one column, or the banner in a section of full width above a
  section of two columns.
\<close>

definition compose_page :: "bool \<Rightarrow> string \<Rightarrow> string \<Rightarrow> string \<Rightarrow> string \<Rightarrow> string" where
  "compose_page two_col banner toc auths body =
     (if two_col \<and> (toc \<noteq> [] \<or> auths \<noteq> [])
      then page_layout ((if banner = [] then [] else full_width_section banner)
                        @ two_column_section (toc @ auths) body)
      else banner @ toc @ auths @ body)"

text \<open>The path that \<^verbatim>\<open>image\<close> records for a local source.\<close>

definition image_path :: "Article \<Rightarrow> string \<Rightarrow> string" where
  "image_path art src = os_path_normpath (os_path_join (absolute_director art) src)"

text \<open>The paths that one callback adds to the attachment list.\<close>

fun attachment_of :: "netloc_check \<Rightarrow> Article \<Rightarrow> callback \<Rightarrow> string list" where
  "attachment_of rejects art (Image src title alt_text) =
     (if urlparse_netloc rejects src = Inr [] then [image_path art src] else [])"
| "attachment_of rejects art (Header text level raw) = []"
| "attachment_of rejects art (BlockCode code lang) = []"
| "attachment_of rejects art (Other fragment) = []"

section \<open>Notions that the statements use\<close>

text \<open>What \<^verbatim>\<open>html.escape\<close> makes of one character.\<close>

definition escape_char :: "char \<Rightarrow> string" where
  \<open>escape_char c =
     (if c = CHR ''&'' then ''&amp;''
      else if c = CHR ''<'' then ''&lt;''
      else if c = CHR ''>'' then ''&gt;''
      else if c = CHR 0x22 then ''&quot;''
      else if c = CHR 0x27 then ''&#x27;''
      else [c])\<close>

text \<open>
  A character of a plain host name: printable ASCII, none of the delimiters
  \<^verbatim>\<open>/ ? #\<close> and no bracket.
\<close>

definition plain_host_char :: "char \<Rightarrow> bool" where
  "plain_host_char c =
     (32 < (of_char c :: nat) \<and> (of_char c :: nat) < 128 \<and> c \<notin> set ''/?#[]'')"

text \<open>
  The text before and the text after the first occurrence of \<open>sub\<close>
  (\<^verbatim>\<open>str.partition\<close>), when there is one.
\<close>

fun split_first :: "string \<Rightarrow> string \<Rightarrow> (string \<times> string) option" where
  "split_first sub [] = (if sub = [] then Some ([], []) else None)"
| "split_first sub (c # cs) =
     (if prefix sub (c # cs) then Some ([], drop (length sub) (c # cs))
      else map_option (\<lambda>(before, after). (c # before, after)) (split_first sub cs))"

text \<open>
  The payload that a reader of the storage format recovers from a fragment: the content
  of its first CDATA section, which starts after the first \<^verbatim>\<open><![CDATA[\<close> and ends
  before the first \<^verbatim>\<open>]]>\<close> that follows.
\<close>

definition cdata_payload :: "string \<Rightarrow> string option" where
  \<open>cdata_payload fragment =
     (case split_first ''<![CDATA['' fragment of
        None \<Rightarrow> None
      | Some (before, section) \<Rightarrow>
          (case split_first '']]>'' section of
             None \<Rightarrow> None
           | Some (payload, after) \<Rightarrow> Some payload))\<close>

text \<open>The document and a renderer of the examples.\<close>

definition example_article :: Article where
  "example_article =
     \<lparr>absolute_path = ''/docs/posts/intro.md'',
      relative_path = ''posts/intro.md'',
      content_path = None,
      space = None,
      confluence_id = None,
      ancestor_id = None,
      page_version = None,
      state = TO_BE_SYNCED,
      is_directory = False\<rparr>"

definition example_renderer :: ConfluenceRenderer where
  "example_renderer = init example_article (Some [''u1'', ''u2'']) (WBool True) True False"

text \<open>A library whose two validations of a network location accept everything.\<close>

definition accept_all :: netloc_check where
  "accept_all netloc = False"

section \<open>The templates and the fragments they produce\<close>

lemma full_with_template_value:
  \<open>full_with_template =
     ''\<newline>'' @
     ''<ac:layout-section ac:type="fixed-width" ac:breakout-mode="default">\<newline>'' @
     ''    <ac:layout-cell>\<newline>'' @
     ''        {}\<newline>'' @
     ''    </ac:layout-cell>\<newline>'' @
     ''</ac:layout-section>\<newline>''\<close>
  by (simp add: full_with_template_def dedent_def is_blank_def margin_step_def)

lemma two_column_template_value:
  \<open>two_column_template =
     ''\<newline>'' @
     ''<ac:layout-section ac:type="two_left_sidebar" ac:breakout-mode="default">\<newline>'' @
     ''    <ac:layout-cell>\<newline>'' @
     ''        {sidebar}\<newline>'' @
     ''    </ac:layout-cell><ac:layout-cell>\<newline>'' @
     ''        {main_content}\<newline>'' @
     ''    </ac:layout-cell>\<newline>'' @
     ''</ac:layout-section>\<newline>''\<close>
  by (simp add: two_column_template_def dedent_def is_blank_def margin_step_def)

lemma page_template_value:
  \<open>page_template =
     ''\<newline>'' @
     ''<ac:layout>\<newline>'' @
     ''    {}\<newline>'' @
     ''</ac:layout>\<newline>''\<close>
  by (simp add: page_template_def dedent_def is_blank_def margin_step_def)

lemma toc_macro_value:
  \<open>toc_macro =
     ''\<newline>'' @
     ''<h1>Table of Contents</h1>\<newline>'' @
     ''<p><ac:structured-macro ac:name="toc" ac:schema-version="1">\<newline>'' @
     ''    <ac:parameter ac:name="exclude">^(Authors|Table of Contents)$</ac:parameter>\<newline>'' @
     ''</ac:structured-macro></p>\<newline>''\<close>
  by (simp add: toc_macro_def dedent_def is_blank_def margin_step_def)

lemma block_code_template_value:
  \<open>block_code_template =
     ''<ac:structured-macro ac:name="code" ac:schema-version="1">\<newline>'' @
     ''    <ac:parameter ac:name="language">{l}</ac:parameter>\<newline>'' @
     ''    <ac:plain-text-body><![CDATA[{c}]]></ac:plain-text-body>\<newline>'' @
     ''</ac:structured-macro>\<newline>''\<close>
  by (simp add: block_code_template_def dedent_def is_blank_def margin_step_def)

lemma format_full_with_template:
  "format full_with_template [banner] [] = Inr (full_width_section banner)"
  by (simp add: format_def full_with_template_value prepend_def full_width_section_def)

lemma format_two_column_template:
  "format two_column_template [] [(''sidebar'', sidebar), (''main_content'', body)]
     = Inr (two_column_section sidebar body)"
  by (simp add: format_def two_column_template_value prepend_def two_column_section_def)

lemma format_page_template:
  "format page_template [sections] [] = Inr (page_layout sections)"
  by (simp add: format_def page_template_value prepend_def page_layout_def)

lemma format_warning_template:
  "format warning_template [] [(''copy'', copy)] = Inr (note_macro copy)"
  by (simp add: format_def warning_template_def prepend_def note_macro_def)

lemma format_author_template:
  "format author_template [] [(''user_key'', user_key)] = Inr (profile_reference user_key)"
  by (simp add: format_def author_template_def prepend_def profile_reference_def
      profile_picture_def user_link_def)

lemma format_block_code_template:
  "format block_code_template [] [(''c'', code), (''l'', language)] = Inr (code_macro language code)"
  by (simp add: format_def block_code_template_value prepend_def code_macro_def)

lemma format_authors_heading:
  \<open>format ''<h1>Authors</h1><p>{}</p>'' [content] [] = Inr (''<h1>Authors</h1><p>'' @ content @ ''</p>'')\<close>
  by (simp add: format_def prepend_def)

lemma format_url_tag:
  \<open>format ''<ri:url ri:value="{}" />'' [src] [] = Inr (''<ri:url ri:value="'' @ src @ ''" />'')\<close>
  by (simp add: format_def prepend_def)

lemma format_attachment_tag:
  \<open>format ''<ri:attachment ri:filename="{}" />'' [name] []
     = Inr (''<ri:attachment ri:filename="'' @ name @ ''" />'')\<close>
  by (simp add: format_def prepend_def)

lemma format_tag_template:
  \<open>format ''<ac:image>{image_tag}</ac:image>'' [] [(''image_tag'', tag)]
     = Inr (''<ac:image>'' @ tag @ ''</ac:image>'')\<close>
  by (simp add: format_def prepend_def)

lemma py_bind_Inr [simp]: "py_bind (Inr x) f = f x"
  by (simp add: py_bind_def)

lemma py_bind_Inl [simp]: "py_bind (Inl e) f = Inl e"
  by (simp add: py_bind_def)

lemma py_bind_eq_Inr: "py_bind r f = Inr y \<longleftrightarrow> (\<exists>x. r = Inr x \<and> f x = Inr y)"
  by (cases r) simp_all

lemma collect_Inr: "collect (map (\<lambda>x. Inr (f x)) xs) = Inr (map f xs)"
  by (induction xs) simp_all

lemma render_warning_closed: "render_warning self = Inr (warning_banner (warning self))"
proof (cases "warning self")
  case (WBool b)
  then show ?thesis
    by (simp add: render_warning_def warning_banner_def format_warning_template)
next
  case (WStr s)
  then show ?thesis
    by (simp add: render_warning_def warning_banner_def format_warning_template)
qed

lemma render_authors_closed: "render_authors self = Inr (author_block (authors self))"
  by (simp add: render_authors_def author_block_def format_author_template collect_Inr
      format_authors_heading)

lemma layout_closed:
  "layout self content =
     Inr (compose_page (two_column_layout self) (warning_banner (warning self))
            (layout_toc self) (author_block (authors self)) content)"
  by (auto simp: layout_def render_authors_closed render_warning_closed compose_page_def
      format_full_with_template format_two_column_template format_page_template Let_def)

lemma block_code_closed:
  "block_code self code lang = Inr (code_macro (case lang of None \<Rightarrow> [] | Some l \<Rightarrow> l) code)"
  by (simp add: block_code_def format_block_code_template)

lemma image_local:
  "urlparse_netloc rejects src = Inr [] \<Longrightarrow>
   image rejects self src title alt_text =
     Inr (attachment_image (os_path_basename (image_path (article self) src)),
          self\<lparr>attachments := attachments self @ [image_path (article self) src]\<rparr>)"
  by (simp add: image_def format_url_tag format_attachment_tag format_tag_template
      attachment_image_def image_path_def Let_def)

lemma image_external:
  "urlparse_netloc rejects src = Inr netloc \<Longrightarrow> netloc \<noteq> [] \<Longrightarrow>
   image rejects self src title alt_text = Inr (url_image src, self)"
  by (simp add: image_def format_url_tag format_tag_template url_image_def Let_def)

lemma image_raises:
  "urlparse_netloc rejects src = Inl e \<Longrightarrow> image rejects self src title alt_text = Inl e"
  by (simp add: image_def)

lemma image_state:
  assumes "image rejects self src title alt_text = Inr (fragment, self')"
  shows "self' = self\<lparr>attachments := attachments self @ attachment_of rejects (article self) (Image src title alt_text)\<rparr>"
proof (cases "urlparse_netloc rejects src")
  case (Inl e)
  with assms show ?thesis by (simp add: image_raises)
next
  case (Inr netloc)
  show ?thesis
  proof (cases "netloc = []")
    case True
    with Inr assms show ?thesis by (simp add: image_local)
  next
    case False
    with Inr assms show ?thesis by (simp add: image_external)
  qed
qed

lemma callback_step_state:
  assumes "callback_step rejects self cb = Inr (fragment, self')"
  shows "self' = self\<lparr>attachments := attachments self @ attachment_of rejects (article self) cb,
                       has_toc := has_toc self \<or> is_header cb\<rparr>"
proof (cases cb)
  case (Header heading level raw)
  with assms show ?thesis by (auto simp: header_def)
next
  case (BlockCode code lang)
  with assms show ?thesis by (auto simp: block_code_closed)
next
  case (Image src title alt_text)
  with assms have "image rejects self src title alt_text = Inr (fragment, self')" by simp
  from image_state [OF this] Image show ?thesis by simp
next
  case (Other f)
  with assms show ?thesis by auto
qed

lemma render_pass_state:
  "render_pass rejects self cbs = Inr (fragments, self') \<Longrightarrow>
   self' = self\<lparr>attachments := attachments self @ concat (map (attachment_of rejects (article self)) cbs),
                 has_toc := has_toc self \<or> (\<exists>cb\<in>set cbs. is_header cb)\<rparr>"
proof (induction cbs arbitrary: self fragments)
  case Nil
  then show ?case by simp
next
  case (Cons cb cbs)
  from Cons.prems obtain fragment mid rest where
    step: "callback_step rejects self cb = Inr (fragment, mid)" and
    pass: "render_pass rejects mid cbs = Inr (rest, self')"
    by (auto simp: py_bind_eq_Inr split: prod.splits)
  from callback_step_state [OF step] Cons.IH [OF pass] show ?case
    by auto
qed

section \<open>The warning banner\<close>

lemma replace_char_append:
  "replace_char old new (s @ t) = replace_char old new s @ replace_char old new t"
  by (simp add: replace_char_def)

lemma html_escape_append: "html_escape (s @ t) = html_escape s @ html_escape t"
  by (simp add: html_escape_def replace_char_append)

lemma html_escape_single: "html_escape [c] = escape_char c"
  by (simp add: html_escape_def replace_char_def escape_char_def)

lemma html_escape_chars: "html_escape s = concat (map escape_char s)"
proof (induction s)
  case Nil
  show ?case by (simp add: html_escape_def replace_char_def)
next
  case (Cons c s)
  have "html_escape (c # s) = html_escape [c] @ html_escape s"
    using html_escape_append [of "[c]" s] by simp
  with Cons show ?case by (simp add: html_escape_single)
qed

lemma escape_char_no_markup:
  \<open>set (escape_char c) \<inter> {CHR ''<'', CHR ''>'', CHR 0x22, CHR 0x27} = {}\<close>
  by (simp add: escape_char_def)

lemma html_escape_no_markup:
  \<open>set (html_escape s) \<inter> {CHR ''<'', CHR ''>'', CHR 0x22, CHR 0x27} = {}\<close>
  using escape_char_no_markup by (simp add: html_escape_chars)

text \<open>
  C7. The banner is empty when the warning is disabled; with \<^verbatim>\<open>True\<close> it is the note
  macro around the fixed notice, with a string (not empty) the note macro around that
  string; in both the text is the escaped one: each character has been replaced by
  its entity or kept, and no \<^verbatim>\<open><\<close>, \<^verbatim>\<open>>\<close> or quote of the text is left in it.
\<close>

theorem render_warning_banner:
  \<open>render_warning (self\<lparr>warning := WBool False\<rparr>) = Inr []
   \<and> render_warning (self\<lparr>warning := WBool True\<rparr>)
       = Inr (note_macro (html_escape default_warning_copy))
   \<and> (s \<noteq> [] \<longrightarrow>
        render_warning (self\<lparr>warning := WStr s\<rparr>) = Inr (note_macro (html_escape s)))
   \<and> html_escape t = concat (map escape_char t)
   \<and> set (html_escape t) \<inter> {CHR ''<'', CHR ''>'', CHR 0x22, CHR 0x27} = {}\<close>
  by (simp add: render_warning_closed warning_banner_def html_escape_no_markup
      html_escape_chars [symmetric])

theorem render_warning_banner_witness:
  \<open>render_warning (example_renderer\<lparr>warning := WBool False\<rparr>) = Inr []
   \<and> render_warning (example_renderer\<lparr>warning := WBool True\<rparr>) =
       Inr (''<ac:structured-macro ac:name="note" ac:schema-version="1" ac:macro-id="f5f3fbe6-6a62-4eb2-867b-3e1254cef301">'' @
            ''<ac:rich-text-body><p>'' @
            ''This page is automatically generated and can be overwritten. Please don&#x27;t modify it here.'' @
            ''</p></ac:rich-text-body></ac:structured-macro>'')
   \<and> ''<b>&"x"'' \<noteq> []
   \<and> render_warning (example_renderer\<lparr>warning := WStr ''<b>&"x"''\<rparr>) =
       Inr (''<ac:structured-macro ac:name="note" ac:schema-version="1" ac:macro-id="f5f3fbe6-6a62-4eb2-867b-3e1254cef301">'' @
            ''<ac:rich-text-body><p>'' @
            ''&lt;b&gt;&amp;&quot;x&quot;'' @
            ''</p></ac:rich-text-body></ac:structured-macro>'')\<close>
  using render_warning_banner [of example_renderer \<open>''<b>&"x"''\<close> \<open>''<b>&"x"''\<close>]
  by (simp add: note_macro_def html_escape_def replace_char_def default_warning_copy_def)

text \<open>
  C10. With the empty string as warning text the banner is empty, as it is when the
  warning is disabled, and not a note macro around an empty text; the page is the one
  rendered with the warning disabled.
\<close>

theorem empty_warning_text_disables_banner:
  "render_warning (self\<lparr>warning := WStr []\<rparr>) = Inr []
   \<and> render_warning (self\<lparr>warning := WStr []\<rparr>) = render_warning (self\<lparr>warning := WBool False\<rparr>)
   \<and> render_warning (self\<lparr>warning := WStr []\<rparr>) \<noteq> Inr (note_macro (html_escape []))
   \<and> layout (self\<lparr>warning := WStr []\<rparr>) content = layout (self\<lparr>warning := WBool False\<rparr>) content"
  by (simp add: render_warning_closed layout_closed warning_banner_def layout_toc_def
      note_macro_def)

theorem empty_warning_text_disables_banner_witness:
  \<open>render_warning (example_renderer\<lparr>warning := WStr []\<rparr>) = Inr []
   \<and> layout (example_renderer\<lparr>warning := WStr []\<rparr>) ''<p>text</p>''
       = layout (example_renderer\<lparr>warning := WBool False\<rparr>) ''<p>text</p>''\<close>
  using empty_warning_text_disables_banner [of example_renderer \<open>''<p>text</p>''\<close>]
  by simp

section \<open>The layout\<close>

text \<open>
  C5. The page is the concatenation of banner, table of contents, author block and body
  when the two-column flag is off or both the table of contents and the author block
  are empty. Otherwise it is the layout element around a section of two columns, the
  left cell with the table of contents followed by the author block and the right cell
  with the body, preceded, when there is a banner, by a section of full width that
  holds the banner. The layout never raises.
\<close>

theorem layout_composition:
  "\<exists>banner auths.
     render_warning self = Inr banner \<and> render_authors self = Inr auths \<and>
     layout self content =
       Inr (if \<not> two_column_layout self \<or> (layout_toc self = [] \<and> auths = [])
            then banner @ layout_toc self @ auths @ content
            else page_layout
                   ((if banner = [] then [] else full_width_section banner)
                    @ two_column_section (layout_toc self @ auths) content))"
  by (auto simp: render_warning_closed render_authors_closed layout_closed compose_page_def)

theorem layout_composition_witness:
  \<open>layout (example_renderer\<lparr>two_column_layout := True, warning := WStr ''w''\<rparr>) ''<p>text</p>'' =
     Inr (''\<newline>'' @
          ''<ac:layout>\<newline>'' @
          ''    \<newline>'' @
          ''<ac:layout-section ac:type="fixed-width" ac:breakout-mode="default">\<newline>'' @
          ''    <ac:layout-cell>\<newline>'' @
          ''        '' @ note_macro ''w'' @ ''\<newline>'' @
          ''    </ac:layout-cell>\<newline>'' @
          ''</ac:layout-section>\<newline>'' @
          ''\<newline>'' @
          ''<ac:layout-section ac:type="two_left_sidebar" ac:breakout-mode="default">\<newline>'' @
          ''    <ac:layout-cell>\<newline>'' @
          ''        '' @ author_block [''u1'', ''u2''] @ ''\<newline>'' @
          ''    </ac:layout-cell><ac:layout-cell>\<newline>'' @
          ''        <p>text</p>\<newline>'' @
          ''    </ac:layout-cell>\<newline>'' @
          ''</ac:layout-section>\<newline>'' @
          ''\<newline>'' @
          ''</ac:layout>\<newline>'')
   \<and> layout (example_renderer\<lparr>warning := WStr ''w''\<rparr>) ''<p>text</p>'' =
       Inr (note_macro ''w'' @ author_block [''u1'', ''u2''] @ ''<p>text</p>'')\<close>
  using layout_composition [of \<open>example_renderer\<lparr>two_column_layout := True, warning := WStr ''w''\<rparr>\<close> \<open>''<p>text</p>''\<close>]
    layout_composition [of \<open>example_renderer\<lparr>warning := WStr ''w''\<rparr>\<close> \<open>''<p>text</p>''\<close>]
  by (auto simp: render_warning_closed render_authors_closed warning_banner_def
      example_renderer_def init_def layout_toc_def page_layout_def full_width_section_def
      two_column_section_def html_escape_def replace_char_def note_macro_def author_block_def)

text \<open>
  C6. When the table of contents and the author block are both empty, the page rendered
  with the two-column flag on is the page rendered with the flag off, and it is a page,
  not an error.
\<close>

theorem two_column_fallback:
  assumes "layout_toc self = []" and "render_authors self = Inr []"
  shows "\<exists>page. layout (self\<lparr>two_column_layout := True\<rparr>) content = Inr page
               \<and> layout (self\<lparr>two_column_layout := False\<rparr>) content = Inr page"
  using assms
  by (simp add: layout_closed compose_page_def layout_toc_def render_authors_closed)

theorem two_column_fallback_witness:
  \<open>layout_toc (init example_article None (WBool True) True True) = []
   \<and> render_authors (init example_article None (WBool True) True True) = Inr []
   \<and> layout (init example_article None (WBool True) True True) ''<p>text</p>''
       = layout (init example_article None (WBool True) True False) ''<p>text</p>''\<close>
proof -
  let ?r = "init example_article None (WBool True) True True"
  have toc: "layout_toc ?r = []"
    by (simp add: layout_toc_def init_def)
  have auths: "render_authors ?r = Inr []"
    by (simp add: render_authors_def init_def)
  have on: "?r\<lparr>two_column_layout := True\<rparr> = ?r"
    by (simp add: init_def)
  have off: "?r\<lparr>two_column_layout := False\<rparr> = init example_article None (WBool True) True False"
    by (simp add: init_def)
  from two_column_fallback [OF toc auths, of \<open>''<p>text</p>''\<close>] toc auths show ?thesis
    unfolding on off by auto
qed

section \<open>The author block\<close>

text \<open>
  C8. With no author the author block is empty and the page is composed without it.
  Otherwise the block is the heading \<^verbatim>\<open>Authors\<close> followed by a paragraph with one
  profile reference per author key, in the order of the list, joined by line breaks;
  a profile reference is the profile picture macro of the key followed by a link to the
  user of that key.
\<close>

theorem render_authors_block:
  \<open>(authors self = [] \<longrightarrow>
       render_authors self = Inr []
       \<and> layout self content =
           Inr (compose_page (two_column_layout self) (warning_banner (warning self))
                  (layout_toc self) [] content))
   \<and> (authors self \<noteq> [] \<longrightarrow>
       render_authors self =
         Inr (''<h1>Authors</h1><p>''
              @ str_join ''<br />'' (map profile_reference (authors self)) @ ''</p>''))
   \<and> length (map profile_reference (authors self)) = length (authors self)
   \<and> (\<forall>i < length (authors self).
         map profile_reference (authors self) ! i =
           profile_picture (authors self ! i) @ ''&nbsp;\<newline>'' @ ''                ''
           @ user_link (authors self ! i))\<close>
  by (simp add: render_authors_closed layout_closed author_block_def profile_reference_def)

theorem render_authors_block_witness:
  \<open>authors example_renderer \<noteq> []
   \<and> render_authors example_renderer =
       Inr (''<h1>Authors</h1><p>''
            @ profile_picture ''u1'' @ ''&nbsp;\<newline>'' @ ''                '' @ user_link ''u1''
            @ ''<br />''
            @ profile_picture ''u2'' @ ''&nbsp;\<newline>'' @ ''                '' @ user_link ''u2''
            @ ''</p>'')
   \<and> authors (example_renderer\<lparr>authors := []\<rparr>) = []
   \<and> render_authors (example_renderer\<lparr>authors := []\<rparr>) = Inr []
   \<and> layout (example_renderer\<lparr>authors := []\<rparr>) ''<p>text</p>'' =
       Inr (note_macro (html_escape default_warning_copy) @ ''<p>text</p>'')\<close>
  using render_authors_block [of example_renderer \<open>''<p>text</p>''\<close>]
    render_authors_block [of \<open>example_renderer\<lparr>authors := []\<rparr>\<close> \<open>''<p>text</p>''\<close>]
  by (simp add: example_renderer_def init_def profile_reference_def compose_page_def
      warning_banner_def layout_toc_def)

text \<open>
  C9. A renderer constructed with \<^verbatim>\<open>authors=None\<close> is the renderer constructed with
  the empty list. After any pass that returns, its author list is still empty, its
  author block is empty and its page is composed without an author block.
\<close>

theorem init_authors_none:
  "init art None warn toc two_col = init art (Some []) warn toc two_col
   \<and> (render_pass rejects (init art None warn toc two_col) cbs = Inr (fragments, self) \<longrightarrow>
        authors self = []
        \<and> render_authors self = Inr []
        \<and> layout self content =
            Inr (compose_page two_col (warning_banner warn) (layout_toc self) [] content))"
proof -
  have "init art None warn toc two_col = init art (Some []) warn toc two_col"
    by (simp add: init_def)
  moreover
  { assume "render_pass rejects (init art None warn toc two_col) cbs = Inr (fragments, self)"
    from render_pass_state [OF this]
    have "authors self = []" and "warning self = warn" and "two_column_layout self = two_col"
      by (simp_all add: init_def)
    then have "authors self = [] \<and> render_authors self = Inr []
        \<and> layout self content =
            Inr (compose_page two_col (warning_banner warn) (layout_toc self) [] content)"
      by (simp add: render_authors_closed layout_closed author_block_def) }
  ultimately show ?thesis by blast
qed

theorem init_authors_none_witness:
  \<open>render_pass accept_all (init example_article None (WBool False) True False)
       [Header ''Title'' 1 None, Other ''<p>text</p>'']
     = Inr ([''<h1>Title</h1>\<newline>'', ''<p>text</p>''],
            (init example_article None (WBool False) True False)\<lparr>has_toc := True\<rparr>)
   \<and> render_authors ((init example_article None (WBool False) True False)\<lparr>has_toc := True\<rparr>) = Inr []
   \<and> layout ((init example_article None (WBool False) True False)\<lparr>has_toc := True\<rparr>)
        ''<h1>Title</h1>\<newline><p>text</p>''
       = Inr (toc_macro @ ''<h1>Title</h1>\<newline><p>text</p>'')\<close>
proof -
  let ?r = "init example_article None (WBool False) True False"
  have pass: "render_pass accept_all ?r [Header ''Title'' 1 None, Other ''<p>text</p>'']
     = Inr ([''<h1>Title</h1>\<newline>'', ''<p>text</p>''], ?r\<lparr>has_toc := True\<rparr>)"
    by (simp add: header_def mistune_header_def str_of_int_def decimal.simps)
  from init_authors_none [of example_article "WBool False" True False accept_all
      "[Header ''Title'' 1 None, Other ''<p>text</p>'']"
      "[''<h1>Title</h1>\<newline>'', ''<p>text</p>'']" "?r\<lparr>has_toc := True\<rparr>"
      "''<h1>Title</h1>\<newline><p>text</p>''"] pass
  show ?thesis
    by (simp add: compose_page_def warning_banner_def layout_toc_def init_def)
qed

section \<open>The table of contents\<close>

lemma toc_macro_not_empty: "toc_macro \<noteq> []"
  by (simp add: toc_macro_value)

lemma toc_macro_exclude_parameter: "sublist toc_exclude_parameter toc_macro"
proof -
  have \<open>toc_macro =
      (''\<newline>'' @ ''<h1>Table of Contents</h1>\<newline>'' @
       ''<p><ac:structured-macro ac:name="toc" ac:schema-version="1">\<newline>'' @ ''    '')
      @ toc_exclude_parameter @ (''\<newline>'' @ ''</ac:structured-macro></p>\<newline>'')\<close>
    (is "_ = ?before @ _ @ ?after")
    by (simp add: toc_macro_value toc_exclude_parameter_def)
  then have "toc_macro = ?before @ toc_exclude_parameter @ ?after" .
  moreover have "sublist toc_exclude_parameter (?before @ toc_exclude_parameter @ ?after)"
    by (rule sublist_appendI)
  ultimately show ?thesis by (simp only:)
qed

lemma caret_in_toc_macro: "CHR ''^'' \<in> set toc_macro"
  by (simp add: toc_macro_value)

lemma sublist_toc_compose_page:
  "sublist toc (compose_page two_col banner toc auths body)"
proof (cases "two_col \<and> (toc \<noteq> [] \<or> auths \<noteq> [])")
  case True
  let ?w = "if banner = [] then [] else full_width_section banner"
  have \<open>page_layout (?w @ two_column_section (toc @ auths) body) =
      (''\<newline>'' @ ''<ac:layout>\<newline>'' @ ''    '' @ ?w @ ''\<newline>'' @
       ''<ac:layout-section ac:type="two_left_sidebar" ac:breakout-mode="default">\<newline>'' @
       ''    <ac:layout-cell>\<newline>'' @ ''        '')
      @ toc @
      (auths @ ''\<newline>'' @ ''    </ac:layout-cell><ac:layout-cell>\<newline>'' @
       ''        '' @ body @ ''\<newline>'' @ ''    </ac:layout-cell>\<newline>'' @
       ''</ac:layout-section>\<newline>'' @ ''\<newline>'' @ ''</ac:layout>\<newline>'')\<close>
    (is "_ = ?before @ _ @ ?after")
    by (simp add: page_layout_def two_column_section_def)
  moreover have "sublist toc (?before @ toc @ ?after)"
    by (rule sublist_appendI)
  ultimately have "sublist toc (page_layout (?w @ two_column_section (toc @ auths) body))"
    by (simp only:)
  with True show ?thesis by (simp add: compose_page_def)
next
  case False
  then show ?thesis by (auto simp: compose_page_def)
qed

lemma caret_escape_char: "CHR ''^'' \<in> set (escape_char c) \<longleftrightarrow> c = CHR ''^''"
  by (auto simp: escape_char_def)

lemma caret_html_escape: "CHR ''^'' \<in> set (html_escape s) \<longleftrightarrow> CHR ''^'' \<in> set s"
  by (auto simp: html_escape_chars caret_escape_char)

lemma caret_warning_banner:
  "CHR ''^'' \<in> set (warning_banner w) \<longleftrightarrow> (\<exists>s. w = WStr s \<and> CHR ''^'' \<in> set s)"
proof (cases w)
  case (WBool b)
  have "CHR ''^'' \<notin> set default_warning_copy"
    by (simp add: default_warning_copy_def)
  with WBool show ?thesis
    by (simp add: warning_banner_def note_macro_def caret_html_escape)
next
  case (WStr s)
  then show ?thesis
    by (auto simp: warning_banner_def note_macro_def caret_html_escape)
qed

lemma set_str_join:
  "c \<notin> set sep \<Longrightarrow> c \<in> set (str_join sep xs) \<longleftrightarrow> (\<exists>x\<in>set xs. c \<in> set x)"
  by (induction sep xs rule: str_join.induct) auto

lemma caret_profile_reference:
  "CHR ''^'' \<in> set (profile_reference k) \<longleftrightarrow> CHR ''^'' \<in> set k"
  by (simp add: profile_reference_def profile_picture_def user_link_def)

lemma caret_author_block:
  "CHR ''^'' \<in> set (author_block keys) \<longleftrightarrow> (\<exists>k\<in>set keys. CHR ''^'' \<in> set k)"
  by (auto simp: author_block_def set_str_join caret_profile_reference)

lemma caret_compose_page:
  "CHR ''^'' \<in> set (compose_page two_col banner toc auths body) \<longleftrightarrow>
     CHR ''^'' \<in> set banner \<or> CHR ''^'' \<in> set toc \<or> CHR ''^'' \<in> set auths
       \<or> CHR ''^'' \<in> set body"
  by (auto simp: compose_page_def page_layout_def full_width_section_def two_column_section_def)

lemma sublist_caret: "sublist xs ys \<Longrightarrow> c \<in> set xs \<Longrightarrow> c \<in> set ys"
  by (auto simp: sublist_def)

text \<open>
  C1. After a pass of a fresh renderer, the page of \<^verbatim>\<open>layout\<close> is composed with the
  table of contents macro in its place exactly when \<^verbatim>\<open>render_toc\<close> is set and the
  pass had a heading, and with nothing there otherwise. When it is there the page
  contains the macro, and the macro carries the parameter \<^verbatim>\<open>exclude\<close> with the pattern
  \<^verbatim>\<open>^(Authors|Table of Contents)$\<close>. When the body, the author keys and the warning
  text have no character \<^verbatim>\<open>^\<close> (the macro has one), the page contains the macro if
  and only if \<^verbatim>\<open>render_toc\<close> is set and the pass had a heading.
\<close>

theorem toc_iff_enabled_and_heading:
  assumes "render_pass rejects (init art auths warn toc two_col) cbs = Inr (fragments, self)"
  shows "\<exists>page.
      layout self content = Inr page
      \<and> page = compose_page two_col (warning_banner warn)
                 (if toc \<and> (\<exists>cb\<in>set cbs. is_header cb) then toc_macro else [])
                 (author_block (authors self)) content
      \<and> (toc \<and> (\<exists>cb\<in>set cbs. is_header cb) \<longrightarrow> sublist toc_macro page)
      \<and> sublist toc_exclude_parameter toc_macro
      \<and> (CHR ''^'' \<notin> set content \<and> (\<forall>k\<in>set (authors self). CHR ''^'' \<notin> set k)
           \<and> (\<forall>s. warn = WStr s \<longrightarrow> CHR ''^'' \<notin> set s) \<longrightarrow>
         (sublist toc_macro page \<longleftrightarrow> toc \<and> (\<exists>cb\<in>set cbs. is_header cb)))"
proof -
  let ?emitted = "toc \<and> (\<exists>cb\<in>set cbs. is_header cb)"
  let ?toc = "if ?emitted then toc_macro else []"
  let ?page = "compose_page two_col (warning_banner warn) ?toc (author_block (authors self)) content"
  from render_pass_state [OF assms]
  have fields: "has_toc self = (\<exists>cb\<in>set cbs. is_header cb)" "render_toc self = toc"
    "warning self = warn" "two_column_layout self = two_col"
    by (simp_all add: init_def)
  then have toc: "layout_toc self = ?toc"
    by (auto simp: layout_toc_def)
  have page: "layout self content = Inr ?page"
    by (simp only: layout_closed fields toc)
  have pos: "?emitted \<longrightarrow> sublist toc_macro ?page"
    using sublist_toc_compose_page [of toc_macro] by simp
  have neg: "\<not> sublist toc_macro ?page"
    if clean: "CHR ''^'' \<notin> set content" "\<forall>k\<in>set (authors self). CHR ''^'' \<notin> set k"
      "\<forall>s. warn = WStr s \<longrightarrow> CHR ''^'' \<notin> set s" and off: "\<not> ?emitted"
  proof
    assume "sublist toc_macro ?page"
    then have "CHR ''^'' \<in> set ?page"
      using caret_in_toc_macro by (rule sublist_caret)
    with clean off show False
      by (auto simp: caret_compose_page caret_warning_banner caret_author_block)
  qed
  from page pos neg toc_macro_exclude_parameter show ?thesis
    by blast
qed

theorem toc_iff_enabled_and_heading_witness:
  \<open>render_pass accept_all (init example_article None (WBool False) True False)
       [Header ''Title'' 1 None, Other ''<p>text</p>'']
     = Inr ([''<h1>Title</h1>\<newline>'', ''<p>text</p>''],
            (init example_article None (WBool False) True False)\<lparr>has_toc := True\<rparr>)
   \<and> layout ((init example_article None (WBool False) True False)\<lparr>has_toc := True\<rparr>)
        ''<h1>Title</h1>\<newline><p>text</p>''
       = Inr (toc_macro @ ''<h1>Title</h1>\<newline><p>text</p>'')
   \<and> sublist toc_macro (toc_macro @ ''<h1>Title</h1>\<newline><p>text</p>'')
   \<and> render_pass accept_all (init example_article None (WBool False) True False)
       [Other ''<p>text</p>'']
     = Inr ([''<p>text</p>''], init example_article None (WBool False) True False)
   \<and> layout (init example_article None (WBool False) True False) ''<p>text</p>''
       = Inr ''<p>text</p>''
   \<and> \<not> sublist toc_macro ''<p>text</p>''\<close>
proof -
  let ?r = "init example_article None (WBool False) True False"
  have pass1: "render_pass accept_all ?r [Header ''Title'' 1 None, Other ''<p>text</p>'']
     = Inr ([''<h1>Title</h1>\<newline>'', ''<p>text</p>''], ?r\<lparr>has_toc := True\<rparr>)"
    by (simp add: header_def mistune_header_def str_of_int_def decimal.simps)
  have pass2: "render_pass accept_all ?r [Other ''<p>text</p>''] = Inr ([''<p>text</p>''], ?r)"
    by simp
  have auths: "authors ?r = []" "authors (?r\<lparr>has_toc := True\<rparr>) = []"
    by (simp_all add: init_def)
  from toc_iff_enabled_and_heading [OF pass1, of "''<h1>Title</h1>\<newline><p>text</p>''"]
  have one: "layout (?r\<lparr>has_toc := True\<rparr>) ''<h1>Title</h1>\<newline><p>text</p>''
       = Inr (toc_macro @ ''<h1>Title</h1>\<newline><p>text</p>'')
     \<and> sublist toc_macro (toc_macro @ ''<h1>Title</h1>\<newline><p>text</p>'')"
    by (simp add: auths compose_page_def warning_banner_def author_block_def)
  from toc_iff_enabled_and_heading [OF pass2, of "''<p>text</p>''"]
  have two: "layout ?r ''<p>text</p>'' = Inr ''<p>text</p>'' \<and> \<not> sublist toc_macro ''<p>text</p>''"
    by (simp add: auths compose_page_def warning_banner_def author_block_def)
  from pass1 pass2 one two show ?thesis by simp
qed

section \<open>Images\<close>

lemma os_path_basename_no_slash: "CHR ''/'' \<notin> set (os_path_basename p)"
proof
  assume "CHR ''/'' \<in> set (os_path_basename p)"
  then have "CHR ''/'' \<in> set (takeWhile (\<lambda>c. c \<noteq> CHR ''/'') (rev p))"
    by (simp add: os_path_basename_def)
  then show False
    by (auto dest: set_takeWhileD)
qed

lemma os_path_basename_suffix: "suffix (os_path_basename p) p"
proof -
  have "rev p = takeWhile (\<lambda>c. c \<noteq> CHR ''/'') (rev p) @ dropWhile (\<lambda>c. c \<noteq> CHR ''/'') (rev p)"
    by simp
  then have "rev (rev p) = rev (dropWhile (\<lambda>c. c \<noteq> CHR ''/'') (rev p)) @ os_path_basename p"
    unfolding os_path_basename_def by (metis rev_append)
  then show ?thesis
    by (auto simp: suffix_def)
qed

text \<open>
  C2. For a source without network location, \<^verbatim>\<open>image\<close> appends to the attachment list
  the normalised join of the directory of the document's absolute path with the
  source, and returns the attachment reference of the base name of that path, which is
  the end of the path after its last slash and has no slash. Over a pass the
  attachment list grows by these paths, one per image callback in document order,
  repeated references included.
\<close>

theorem local_image_attachment:
  "(urlparse_netloc rejects src = Inr [] \<longrightarrow>
      image rejects self src title alt_text =
        Inr (attachment_image (os_path_basename (image_path (article self) src)),
             self\<lparr>attachments := attachments self @ [image_path (article self) src]\<rparr>)
      \<and> image_path (article self) src =
          os_path_normpath (os_path_join (os_path_dirname (absolute_path (article self))) src)
      \<and> suffix (os_path_basename (image_path (article self) src)) (image_path (article self) src)
      \<and> CHR ''/'' \<notin> set (os_path_basename (image_path (article self) src)))
   \<and> (render_pass rejects self cbs = Inr (fragments, self') \<longrightarrow>
        attachments self' =
          attachments self @ concat (map (attachment_of rejects (article self)) cbs))"
proof -
  have "attachments self' = attachments self @ concat (map (attachment_of rejects (article self)) cbs)"
    if "render_pass rejects self cbs = Inr (fragments, self')"
    using render_pass_state [OF that] by simp
  then show ?thesis
    by (simp add: image_local os_path_basename_no_slash os_path_basename_suffix
        image_path_def absolute_director_def)
qed

theorem local_image_attachment_witness:
  \<open>urlparse_netloc accept_all ''img/diagram.png'' = Inr []
   \<and> image accept_all example_renderer ''img/diagram.png'' None ''a diagram'' =
       Inr (''<ac:image><ri:attachment ri:filename="diagram.png" /></ac:image>'',
            example_renderer\<lparr>attachments := [''/docs/posts/img/diagram.png'']\<rparr>)
   \<and> render_pass accept_all example_renderer
         [Image ''img/diagram.png'' None ''a diagram'', Other ''<p>text</p>'',
          Image ''img/diagram.png'' None ''again'']
       = Inr ([''<ac:image><ri:attachment ri:filename="diagram.png" /></ac:image>'',
               ''<p>text</p>'',
               ''<ac:image><ri:attachment ri:filename="diagram.png" /></ac:image>''],
              example_renderer\<lparr>attachments :=
                [''/docs/posts/img/diagram.png'', ''/docs/posts/img/diagram.png'']\<rparr>)\<close>
proof -
  have local: "urlparse_netloc accept_all ''img/diagram.png'' = Inr []"
    by (simp add: urlparse_netloc_def lstrip_c0_def remove_unsafe_def strip_scheme_def)
  have path: "image_path example_article ''img/diagram.png'' = ''/docs/posts/img/diagram.png''"
    by (simp add: image_path_def absolute_director_def example_article_def os_path_dirname_def
        os_path_join_def os_path_normpath_def normpath_step_def suffix_to_prefix)
  have name: "os_path_basename ''/docs/posts/img/diagram.png'' = ''diagram.png''"
    by (simp add: os_path_basename_def)
  have art: "article example_renderer = example_article" "attachments example_renderer = []"
    by (simp_all add: example_renderer_def init_def)
  have art': "article (example_renderer\<lparr>attachments := xs\<rparr>) = example_article" for xs
    by (simp add: example_renderer_def init_def)
  from local_image_attachment [of accept_all "''img/diagram.png''" example_renderer None
      "''a diagram''" "[]" "[]" example_renderer] local
  have one: "image accept_all example_renderer ''img/diagram.png'' None ''a diagram'' =
       Inr (''<ac:image><ri:attachment ri:filename=\"diagram.png\" /></ac:image>'',
            example_renderer\<lparr>attachments := [''/docs/posts/img/diagram.png'']\<rparr>)"
    by (simp add: art path name attachment_image_def)
  have two: "image accept_all (example_renderer\<lparr>attachments := [''/docs/posts/img/diagram.png'']\<rparr>)
         ''img/diagram.png'' None ''again'' =
       Inr (''<ac:image><ri:attachment ri:filename=\"diagram.png\" /></ac:image>'',
            example_renderer\<lparr>attachments :=
              [''/docs/posts/img/diagram.png'', ''/docs/posts/img/diagram.png'']\<rparr>)"
    using local by (simp add: image_local art' path name attachment_image_def)
  from local one two show ?thesis
    by simp
qed

lemma unsafe_below_33:
  "32 < (of_char c :: nat) \<Longrightarrow> c \<noteq> CHR 0x09 \<and> c \<noteq> CHR 0x0D \<and> c \<noteq> CHR 0x0A"
  by auto

lemma remove_unsafe_plain:
  assumes "list_all plain_host_char host"
  shows "remove_unsafe host = host"
proof -
  from assms have "\<forall>c\<in>set host. 32 < (of_char c :: nat)"
    by (simp add: list_all_iff plain_host_char_def)
  with unsafe_below_33 have "\<forall>c\<in>set host. c \<noteq> CHR 0x09 \<and> c \<noteq> CHR 0x0D \<and> c \<noteq> CHR 0x0A"
    by blast
  then show ?thesis
    unfolding remove_unsafe_def by (rule filter_True)
qed

lemma remove_unsafe_rest:
  assumes "rest = [] \<or> hd rest \<in> set ''/?#''"
  shows "remove_unsafe rest = [] \<or> hd (remove_unsafe rest) \<in> set ''/?#''"
  using assms by (cases rest) (auto simp: remove_unsafe_def)

lemma strip_scheme_slash: "strip_scheme (CHR ''/'' # url) = CHR ''/'' # url"
  by (simp add: strip_scheme_def ascii_alpha_def Let_def)

lemma takeWhile_host:
  assumes "list_all plain_host_char host" and "rest = [] \<or> hd rest \<in> set ''/?#''"
  shows "takeWhile (\<lambda>c. c \<notin> set ''/?#'') (host @ rest) = host"
proof -
  from assms(1) have "\<forall>c\<in>set host. c \<notin> set ''/?#[]''"
    by (simp add: list_all_iff plain_host_char_def)
  then have "\<forall>c\<in>set host. c \<notin> set ''/?#''"
    by simp
  then have "takeWhile (\<lambda>c. c \<notin> set ''/?#'') (host @ rest)
      = host @ takeWhile (\<lambda>c. c \<notin> set ''/?#'') rest"
    by (simp add: takeWhile_append2)
  moreover from assms(2) have "takeWhile (\<lambda>c. c \<notin> set ''/?#'') rest = []"
    by (cases rest) auto
  ultimately show ?thesis by simp
qed

lemma urlparse_netloc_protocol_relative:
  assumes host: "list_all plain_host_char host"
    and rest: "rest = [] \<or> hd rest \<in> set ''/?#''"
  shows "urlparse_netloc rejects (''//'' @ host @ rest) = Inr host"
proof -
  have "lstrip_c0 (''//'' @ host @ rest) = ''//'' @ host @ rest"
    by (simp add: lstrip_c0_def)
  moreover have "remove_unsafe (''//'' @ host @ rest) = ''//'' @ host @ remove_unsafe rest"
    using remove_unsafe_plain [OF host] by (simp add: remove_unsafe_def)
  moreover have "strip_scheme (''//'' @ host @ remove_unsafe rest) = ''//'' @ host @ remove_unsafe rest"
    using strip_scheme_slash by simp
  moreover have "takeWhile (\<lambda>c. c \<notin> set ''/?#'') (host @ remove_unsafe rest) = host"
    using host remove_unsafe_rest [OF rest] by (rule takeWhile_host)
  moreover from host have "\<forall>c\<in>set host. c \<notin> set ''/?#[]''"
    by (simp add: list_all_iff plain_host_char_def)
  then have "CHR ''['' \<notin> set host" "CHR '']'' \<notin> set host"
    by auto
  moreover from host have "list_all (\<lambda>c. (of_char c :: nat) < 128) host"
    by (simp add: list_all_iff plain_host_char_def)
  ultimately show ?thesis
    by (simp add: urlparse_netloc_def)
qed

text \<open>
  C3. For a source whose network location is not empty, \<^verbatim>\<open>image\<close> returns the URL
  reference with the source as it was given and leaves the renderer, and so the
  attachment list, as it was. A source that starts with two slashes followed by a
  host name, without a scheme, has that host as network location and is such a source.
\<close>

theorem external_image_url:
  \<open>(urlparse_netloc rejects src = Inr netloc \<and> netloc \<noteq> [] \<longrightarrow>
      image rejects self src title alt_text =
        Inr (''<ac:image><ri:url ri:value="'' @ src @ ''" /></ac:image>'', self))
   \<and> (host \<noteq> [] \<and> list_all plain_host_char host \<and> (rest = [] \<or> hd rest \<in> set ''/?#'') \<longrightarrow>
      urlparse_netloc rejects (''//'' @ host @ rest) = Inr host
      \<and> image rejects self (''//'' @ host @ rest) title alt_text =
          Inr (''<ac:image><ri:url ri:value="'' @ (''//'' @ host @ rest) @ ''" /></ac:image>'', self))\<close>
proof -
  have general: \<open>image rejects self s title alt_text =
        Inr (''<ac:image><ri:url ri:value="'' @ s @ ''" /></ac:image>'', self)\<close>
    if "urlparse_netloc rejects s = Inr n" and "n \<noteq> []" for s n
    using image_external [OF that] by (simp add: url_image_def)
  have relative: "urlparse_netloc rejects (''//'' @ host @ rest) = Inr host"
    if "list_all plain_host_char host" and "rest = [] \<or> hd rest \<in> set ''/?#''"
    using that by (rule urlparse_netloc_protocol_relative)
  from general [of src netloc] general [of "''//'' @ host @ rest" host] relative
  show ?thesis
    by blast
qed

theorem external_image_url_witness:
  \<open>urlparse_netloc accept_all ''https://cdn.example.com/a.png'' = Inr ''cdn.example.com''
   \<and> image accept_all example_renderer ''https://cdn.example.com/a.png'' None ''logo'' =
       Inr (''<ac:image><ri:url ri:value="https://cdn.example.com/a.png" /></ac:image>'',
            example_renderer)
   \<and> list_all plain_host_char ''cdn.example.com''
   \<and> urlparse_netloc accept_all ''//cdn.example.com/a.png'' = Inr ''cdn.example.com''
   \<and> image accept_all example_renderer ''//cdn.example.com/a.png'' None ''logo'' =
       Inr (''<ac:image><ri:url ri:value="//cdn.example.com/a.png" /></ac:image>'',
            example_renderer)
   \<and> attachments example_renderer = []\<close>
proof -
  have full: "urlparse_netloc accept_all ''https://cdn.example.com/a.png'' = Inr ''cdn.example.com''"
    by (simp add: urlparse_netloc_def lstrip_c0_def remove_unsafe_def strip_scheme_def
        ascii_alpha_def scheme_chars_def accept_all_def)
  have plain: "list_all plain_host_char ''cdn.example.com''"
    by (simp add: plain_host_char_def)
  from external_image_url [of accept_all "''https://cdn.example.com/a.png''" "''cdn.example.com''"
      example_renderer None "''logo''" "''cdn.example.com''" "''/a.png''"] full plain
  show ?thesis
    by (simp add: example_renderer_def init_def)
qed

section \<open>Code blocks\<close>

lemma split_first_at: "sub \<noteq> [] \<Longrightarrow> split_first sub (sub @ r) = Some ([], r)"
  by (cases sub) simp_all

text \<open>
  The first occurrence of \<open>sub\<close> in \<open>xs @ t\<close> is in \<open>t\<close> when \<open>sub\<close> does not occur in
  \<open>xs\<close> and no occurrence starts at the end of \<open>xs\<close> and ends in \<open>t\<close>.
\<close>

lemma split_first_append:
  assumes "\<not> sublist sub xs"
    and "\<And>d us. sub = d @ us \<Longrightarrow> d \<noteq> [] \<Longrightarrow> us \<noteq> [] \<Longrightarrow> suffix d xs \<Longrightarrow> \<not> prefix us t"
  shows "split_first sub (xs @ t) = map_option (\<lambda>(a, b). (xs @ a, b)) (split_first sub t)"
  using assms
proof (induction xs)
  case Nil
  show ?case by (cases "split_first sub t") auto
next
  case (Cons c cs)
  from Cons.prems(1) have no_prefix: "\<not> prefix sub (c # cs)" and inner: "\<not> sublist sub cs"
    by (simp_all add: sublist_Cons_right)
  have straddle: "\<not> prefix us t" if "sub = d @ us" "d \<noteq> []" "us \<noteq> []" "suffix d cs" for d us
    using that Cons.prems(2) [of d us] by (simp add: suffix_ConsI)
  have here: "\<not> prefix sub (c # cs @ t)"
  proof
    assume "prefix sub (c # cs @ t)"
    then have "prefix sub ((c # cs) @ t)" by simp
    then consider "prefix sub (c # cs)" | us where "sub = (c # cs) @ us" "prefix us t"
      unfolding prefix_append by blast
    then show False
    proof cases
      case 1
      with no_prefix show False by simp
    next
      case 2
      show False
      proof (cases "us = []")
        case True
        with 2 no_prefix show False by simp
      next
        case False
        from Cons.prems(2) [OF 2(1) _ False] 2(2) show False by simp
      qed
    qed
  qed
  have "split_first sub (cs @ t) = map_option (\<lambda>(a, b). (cs @ a, b)) (split_first sub t)"
  proof (rule Cons.IH [OF inner])
    fix d us
    assume "sub = d @ us" "d \<noteq> []" "us \<noteq> []" "suffix d cs"
    then show "\<not> prefix us t" by (rule straddle)
  qed
  with here show ?case
    by (cases "split_first sub t") auto
qed

lemma split_first_append_hd:
  assumes "\<not> sublist sub xs" and "t \<noteq> []" and "hd t \<notin> set (tl sub)"
  shows "split_first sub (xs @ t) = map_option (\<lambda>(a, b). (xs @ a, b)) (split_first sub t)"
proof (rule split_first_append [OF assms(1)])
  fix d us
  assume "sub = d @ us" "d \<noteq> []" "us \<noteq> []"
  then have "hd us \<in> set (tl sub)"
    by (cases d) auto
  with assms(2,3) \<open>us \<noteq> []\<close> show "\<not> prefix us t"
    by (cases us; cases t) auto
qed

lemma split_first_append_last:
  assumes "\<not> sublist sub xs" and "xs \<noteq> []" and "last xs \<notin> set (butlast sub)"
  shows "split_first sub (xs @ t) = map_option (\<lambda>(a, b). (xs @ a, b)) (split_first sub t)"
proof (rule split_first_append [OF assms(1)])
  fix d us
  assume parts: "sub = d @ us" "d \<noteq> []" "us \<noteq> []" and "suffix d xs"
  then have "last d = last xs"
    by (auto simp: suffix_def)
  moreover from parts have "last d \<in> set (butlast sub)"
    by (simp add: butlast_append)
  ultimately show "\<not> prefix us t"
    using assms(3) by simp
qed

lemma split_first_cdata_open:
  assumes "\<not> sublist ''<![CDATA['' language"
  shows \<open>split_first ''<![CDATA['' (code_macro language payload) =
     Some (''<ac:structured-macro ac:name="code" ac:schema-version="1">\<newline>'' @
           ''    <ac:parameter ac:name="language">'' @ language @ ''</ac:parameter>\<newline>'' @
           ''    <ac:plain-text-body>'',
           payload @ '']]></ac:plain-text-body>\<newline>'' @ ''</ac:structured-macro>\<newline>'')\<close>
proof -
  let ?open = "''<![CDATA[''"
  let ?head = \<open>''<ac:structured-macro ac:name="code" ac:schema-version="1">\<newline>'' @
           ''    <ac:parameter ac:name="language">''\<close>
  let ?mid = \<open>''</ac:parameter>\<newline>'' @ ''    <ac:plain-text-body>''\<close>
  let ?rest = \<open>payload @ '']]></ac:plain-text-body>\<newline>'' @ ''</ac:structured-macro>\<newline>''\<close>
  have shape: "code_macro language payload = ?head @ language @ ?mid @ ?open @ ?rest"
    by (simp add: code_macro_def)
  have "split_first ?open (?open @ ?rest) = Some ([], ?rest)"
    by (rule split_first_at) simp
  moreover have "split_first ?open (?mid @ ?open @ ?rest)
      = map_option (\<lambda>(a, b). (?mid @ a, b)) (split_first ?open (?open @ ?rest))"
    by (rule split_first_append_last) (simp_all add: sublist_Cons_right)
  moreover have "split_first ?open (language @ ?mid @ ?open @ ?rest)
      = map_option (\<lambda>(a, b). (language @ a, b)) (split_first ?open (?mid @ ?open @ ?rest))"
    by (rule split_first_append_hd [OF assms]) simp_all
  moreover have "split_first ?open (?head @ language @ ?mid @ ?open @ ?rest)
      = map_option (\<lambda>(a, b). (?head @ a, b)) (split_first ?open (language @ ?mid @ ?open @ ?rest))"
    by (rule split_first_append_last) (simp_all add: sublist_Cons_right)
  ultimately have "split_first ?open (?head @ language @ ?mid @ ?open @ ?rest)
      = Some (?head @ language @ ?mid, ?rest)"
    by simp
  then show ?thesis
    by (simp only: shape append_assoc)
qed

lemma split_first_cdata_close:
  assumes "\<not> sublist '']]>'' payload"
  shows "split_first '']]>'' (payload @ '']]>'' @ after) = Some (payload, after)"
proof -
  have "split_first '']]>'' (payload @ '']]>'' @ after)
      = map_option (\<lambda>(a, b). (payload @ a, b)) (split_first '']]>'' ('']]>'' @ after))"
  proof (rule split_first_append [OF assms])
    fix d us
    assume "'']]>'' = d @ us" "d \<noteq> []" "us \<noteq> []"
    then show "\<not> prefix us ('']]>'' @ after)"
      by (auto simp: Cons_eq_append_conv)
  qed
  moreover have "split_first '']]>'' ('']]>'' @ after) = Some ([], after)"
    by (rule split_first_at) simp
  ultimately show ?thesis by simp
qed

lemma cdata_payload_code_macro:
  assumes "\<not> sublist '']]>'' payload" and "\<not> sublist ''<![CDATA['' language"
  shows "cdata_payload (code_macro language payload) = Some payload"
proof -
  have \<open>split_first '']]>'' (payload @ '']]></ac:plain-text-body>\<newline>'' @ ''</ac:structured-macro>\<newline>'')
      = Some (payload, ''</ac:plain-text-body>\<newline>'' @ ''</ac:structured-macro>\<newline>'')\<close>
    using split_first_cdata_close [OF assms(1)] by simp
  then show ?thesis
    by (simp add: cdata_payload_def split_first_cdata_open [OF assms(2)])
qed

text \<open>
  C4, as the claim states it, fails: a payload with the CDATA terminator \<^verbatim>\<open>]]>\<close> is
  inserted as it is, the section ends at that terminator and what is recovered is the
  payload up to there; a language tag with \<^verbatim>\<open><![CDATA[\<close> opens the section before
  the payload.
\<close>

theorem block_code_cdata_counterexample:
  \<open>block_code example_renderer ''a]]>b'' None =
     Inr (''<ac:structured-macro ac:name="code" ac:schema-version="1">\<newline>'' @
          ''    <ac:parameter ac:name="language"></ac:parameter>\<newline>'' @
          ''    <ac:plain-text-body><![CDATA[a]]>b]]></ac:plain-text-body>\<newline>'' @
          ''</ac:structured-macro>\<newline>'')
   \<and> cdata_payload
        (''<ac:structured-macro ac:name="code" ac:schema-version="1">\<newline>'' @
         ''    <ac:parameter ac:name="language"></ac:parameter>\<newline>'' @
         ''    <ac:plain-text-body><![CDATA[a]]>b]]></ac:plain-text-body>\<newline>'' @
         ''</ac:structured-macro>\<newline>'') = Some ''a''
   \<and> block_code example_renderer ''x'' (Some ''<![CDATA['') =
     Inr (''<ac:structured-macro ac:name="code" ac:schema-version="1">\<newline>'' @
          ''    <ac:parameter ac:name="language"><![CDATA[</ac:parameter>\<newline>'' @
          ''    <ac:plain-text-body><![CDATA[x]]></ac:plain-text-body>\<newline>'' @
          ''</ac:structured-macro>\<newline>'')
   \<and> cdata_payload
        (''<ac:structured-macro ac:name="code" ac:schema-version="1">\<newline>'' @
         ''    <ac:parameter ac:name="language"><![CDATA[</ac:parameter>\<newline>'' @
         ''    <ac:plain-text-body><![CDATA[x]]></ac:plain-text-body>\<newline>'' @
         ''</ac:structured-macro>\<newline>'')
       = Some (''</ac:parameter>\<newline>'' @ ''    <ac:plain-text-body><![CDATA[x'')\<close>
  by (simp add: block_code_closed code_macro_def cdata_payload_def)

text \<open>
  C4, amended. For every payload and every language tag \<^verbatim>\<open>block_code\<close> returns, and
  never raises, the code macro whose language parameter is the tag, or the empty
  string when the tag is \<^verbatim>\<open>None\<close>, and whose CDATA section starts with the payload
  as it was given. When the payload has no \<^verbatim>\<open>]]>\<close> and the tag no \<^verbatim>\<open><![CDATA[\<close>,
  the payload recovered from the fragment is the payload, whatever angle brackets and
  ampersands it has.
\<close>

theorem block_code_payload:
  \<open>block_code self code lang =
     Inr (''<ac:structured-macro ac:name="code" ac:schema-version="1">\<newline>'' @
          ''    <ac:parameter ac:name="language">'' @ (case lang of None \<Rightarrow> [] | Some l \<Rightarrow> l) @
          ''</ac:parameter>\<newline>'' @
          ''    <ac:plain-text-body><![CDATA['' @ code @ '']]></ac:plain-text-body>\<newline>'' @
          ''</ac:structured-macro>\<newline>'')
   \<and> (\<not> sublist '']]>'' code \<and> \<not> sublist ''<![CDATA['' (case lang of None \<Rightarrow> [] | Some l \<Rightarrow> l) \<longrightarrow>
        (\<exists>fragment. block_code self code lang = Inr fragment \<and> cdata_payload fragment = Some code))\<close>
  using cdata_payload_code_macro [of code "case lang of None \<Rightarrow> [] | Some l \<Rightarrow> l"]
  by (simp add: block_code_closed code_macro_def)

theorem block_code_payload_witness:
  \<open>\<not> sublist '']]>'' ''if a<b && c>d: x[y[0]] = "&amp;"''
   \<and> \<not> sublist ''<![CDATA['' ''python''
   \<and> block_code example_renderer ''if a<b && c>d: x[y[0]] = "&amp;"'' (Some ''python'') =
       Inr (''<ac:structured-macro ac:name="code" ac:schema-version="1">\<newline>'' @
            ''    <ac:parameter ac:name="language">python</ac:parameter>\<newline>'' @
            ''    <ac:plain-text-body><![CDATA[if a<b && c>d: x[y[0]] = "&amp;"]]></ac:plain-text-body>\<newline>'' @
            ''</ac:structured-macro>\<newline>'')
   \<and> cdata_payload
        (''<ac:structured-macro ac:name="code" ac:schema-version="1">\<newline>'' @
         ''    <ac:parameter ac:name="language">python</ac:parameter>\<newline>'' @
         ''    <ac:plain-text-body><![CDATA[if a<b && c>d: x[y[0]] = "&amp;"]]></ac:plain-text-body>\<newline>'' @
         ''</ac:structured-macro>\<newline>'')
       = Some ''if a<b && c>d: x[y[0]] = "&amp;"''\<close>
proof -
  have clean: \<open>\<not> sublist '']]>'' ''if a<b && c>d: x[y[0]] = "&amp;"''\<close>
      \<open>\<not> sublist ''<![CDATA['' ''python''\<close>
    by (simp_all add: sublist_Cons_right)
  from block_code_payload [of example_renderer \<open>''if a<b && c>d: x[y[0]] = "&amp;"''\<close> "Some ''python''"]
    clean
  show ?thesis
    by auto
qed

end
